theory Spec2Isabelle
  imports Main
begin

section \<open>Strings and values of the host language\<close>

text \<open>
  A JavaScript string is a sequence of UTF-16 code units. Payloads and keys are modelled as
  \<open>string\<close>, a \<open>char\<close> standing for the code unit of the same number (U+0000 to U+00FF).
  A thrown value is either an \<open>Error\<close> instance, of which the code reads the message, or
  any other value.
\<close>

datatype thrown = ErrorInstance string | NonErrorValue

text \<open>
  \<open>String.prototype.trim\<close> removes WhiteSpace and LineTerminator code units from both ends;
  below U+0100 these are TAB, LF, VT, FF, CR, SPACE and NO-BREAK SPACE.
\<close>

definition isWhiteSpace :: "char \<Rightarrow> bool" where
  "isWhiteSpace c = (of_char c \<in> {9, 10, 11, 12, 13, 32, 160 :: nat})"

definition trim :: "string \<Rightarrow> string" where
  "trim s = rev (dropWhile isWhiteSpace (rev (dropWhile isWhiteSpace s)))"

definition startsWith :: "string \<Rightarrow> string \<Rightarrow> bool" where
  "startsWith s p = (take (length p) s = p)"

text \<open>\<open>s.split(sep)\<close> for a separator of one code unit: never an empty array.\<close>

fun split_str :: "char \<Rightarrow> string \<Rightarrow> string list" where
  "split_str sep [] = [[]]"
| "split_str sep (c # cs) =
     (if c = sep then [] # split_str sep cs
      else (case split_str sep cs of
              [] \<Rightarrow> [[c]]
            | x # xs \<Rightarrow> (c # x) # xs))"

text \<open>\<open>Array.prototype.pop\<close>: the last element, \<open>undefined\<close> (here \<open>None\<close>) on an empty array.\<close>

definition pop :: "'a list \<Rightarrow> 'a option" where
  "pop xs = (if xs = [] then None else Some (last xs))"

text \<open>\<open>s || null\<close> on a string: the empty string is falsy.\<close>

definition or_null :: "string \<Rightarrow> string option" where
  "or_null s = (if s = [] then None else Some s)"

text \<open>
  \<open>String.prototype.toLowerCase\<close> on code units below U+0100: A to Z, and U+00C0 to U+00DE
  but for the multiplication sign U+00D7, move up by 32; every other code unit stays.
\<close>

definition toLowerChar :: "char \<Rightarrow> char" where
  "toLowerChar c =
     (let n = (of_char c :: nat) in
      if (65 \<le> n \<and> n \<le> 90) \<or> (192 \<le> n \<and> n \<le> 222 \<and> n \<noteq> 215)
      then char_of (n + 32) else c)"

definition toLowerCase :: "string \<Rightarrow> string" where
  "toLowerCase s = map toLowerChar s"

subsection \<open>Values produced by \<open>JSON.parse\<close>\<close>

text \<open>
  \<open>JSON.parse\<close> belongs to the host, not to the repository: the resolver takes it as a
  parameter, a function from the text to the parsed value or to the value it throws.
  A parsed value is null, a boolean, a number (kept as its rendering by \<open>Number::toString\<close>,
  the only thing the resolver observes of it), a string, an array, or an object listing its
  own properties, one entry per key.
\<close>

datatype jsvalue =
    JNull
  | JBool bool
  | JNumber string
  | JString string
  | JArray "jsvalue list"
  | JObject "(string \<times> jsvalue) list"

type_synonym json_parser = "string \<Rightarrow> thrown + jsvalue"

definition truthy :: "jsvalue \<Rightarrow> bool" where
  "truthy v = (case v of
       JNull \<Rightarrow> False
     | JBool b \<Rightarrow> b
     | JNumber r \<Rightarrow> r \<noteq> ''0'' \<and> r \<noteq> ''NaN''
     | JString s \<Rightarrow> s \<noteq> []
     | JArray xs \<Rightarrow> True
     | JObject ps \<Rightarrow> True)"

text \<open>\<open>typeof v === 'object'\<close>: true of null, arrays and objects.\<close>

definition typeof_object :: "jsvalue \<Rightarrow> bool" where
  "typeof_object v = (case v of
       JNull \<Rightarrow> True
     | JArray xs \<Rightarrow> True
     | JObject ps \<Rightarrow> True
     | _ \<Rightarrow> False)"

text \<open>
  \<open>'agent' in v\<close> for an object or array \<open>v\<close>: neither \<open>Object.prototype\<close> nor
  \<open>Array.prototype\<close> has a property of that name, so only an own property counts.
\<close>

definition has_agent :: "jsvalue \<Rightarrow> bool" where
  "has_agent v = (case v of
       JObject ps \<Rightarrow> ''agent'' \<in> fst ` set ps
     | _ \<Rightarrow> False)"

text \<open>\<open>v.agent ?? ''\<close>: a missing property and null both give the empty string.\<close>

definition agent_or_empty :: "jsvalue \<Rightarrow> jsvalue" where
  "agent_or_empty v = (case v of
       JObject ps \<Rightarrow> (case map_of ps ''agent'' of
                        None \<Rightarrow> JString []
                      | Some JNull \<Rightarrow> JString []
                      | Some a \<Rightarrow> a)
     | _ \<Rightarrow> JString [])"

text \<open>
  \<open>String(v)\<close>. An array is joined with commas, null elements giving the empty string.
  An object is \<open>[object Object]\<close>, unless it has an own property \<open>toString\<close>: a parsed value
  is never callable, \<open>valueOf\<close> does not return a primitive either, and the conversion throws
  a \<open>TypeError\<close>.
\<close>

fun String_js :: "jsvalue \<Rightarrow> thrown + string"
  and join_js :: "jsvalue list \<Rightarrow> thrown + string" where
  "String_js JNull = Inr ''null''"
| "String_js (JBool b) = Inr (if b then ''true'' else ''false'')"
| "String_js (JNumber r) = Inr r"
| "String_js (JString s) = Inr s"
| "String_js (JArray xs) = join_js xs"
| "String_js (JObject ps) =
     (if ''toString'' \<in> fst ` set ps
      then Inl (ErrorInstance ''Cannot convert object to primitive value'')
      else Inr ''[object Object]'')"
| "join_js [] = Inr []"
| "join_js (x # xs) =
     (case (if x = JNull then Inr [] else String_js x) of
        Inl e \<Rightarrow> Inl e
      | Inr s \<Rightarrow>
          (if xs = [] then Inr s
           else (case join_js xs of
                   Inl e \<Rightarrow> Inl e
                 | Inr t \<Rightarrow> Inr (s @ '','' @ t))))"

section \<open>Payload Resolver (agentMap.ts)\<close>

text \<open>
  The outcome of the \<open>try\<close> block of \<open>resolveAgentKey\<close>: it returns a value, throws, or
  is left without either, and control goes on after the \<open>try\<close> statement.
\<close>

datatype try_outcome = Returns "string option" | Throws thrown | Completes

definition resolveAgentKey_try :: "json_parser \<Rightarrow> string \<Rightarrow> try_outcome" where
  "resolveAgentKey_try JSON_parse trimmed =
     (if startsWith trimmed ''talkiewalkie://'' then
        (case pop (split_str CHR ''/'' trimmed) of
           None \<Rightarrow> Returns None
         | Some segment \<Rightarrow> Returns (or_null (trim segment)))
      else if startsWith trimmed ''{'' then
        (case JSON_parse trimmed of
           Inl e \<Rightarrow> Throws e
         | Inr parsed \<Rightarrow>
             if truthy parsed \<and> typeof_object parsed \<and> has_agent parsed then
               (case String_js (agent_or_empty parsed) of
                  Inl e \<Rightarrow> Throws e
                | Inr v \<Rightarrow> Returns (or_null (trim v)))
             else Returns None)
      else Completes)"

text \<open>
  \<open>resolveAgentKey\<close>: \<open>Inl\<close> would be an exception reaching the caller, \<open>Inr None\<close> is
  \<open>null\<close>, \<open>Inr (Some k)\<close> the string \<open>k\<close>. The \<open>catch\<close> clause logs a warning and
  returns \<open>null\<close>.
\<close>

definition resolveAgentKey :: "json_parser \<Rightarrow> string \<Rightarrow> thrown + string option" where
  "resolveAgentKey JSON_parse payload =
     (if payload = [] then Inr None
      else
        (let trimmed = trim payload in
         case resolveAgentKey_try JSON_parse trimmed of
           Returns r \<Rightarrow> Inr r
         | Throws e \<Rightarrow> Inr None
         | Completes \<Rightarrow> Inr (Some trimmed)))"

text \<open>
  \<open>getAgentByKey\<close> and \<open>createLookup\<close>. An \<open>AgentInfo\<close> has the fields \<open>id\<close> and \<open>label\<close>
  (\<open>id\<close> is written \<open>agent_id\<close> here). A static agent map is given by its
  \<open>Object.entries\<close>; \<open>Object.fromEntries\<close> builds an ordinary object, a later entry
  replacing an earlier one of the same key.
\<close>

record AgentInfo =
  agent_id :: string
  label :: string

definition AGENTS :: "(string \<times> AgentInfo) list" where
  "AGENTS = [(''rio'', \<lparr>agent_id = ''1e171fee-c39d-4848-a6fd-2e658a442ff0'', label = ''RIO''\<rparr>)]"

definition ELEVENLABS_AGENTS :: "(string \<times> AgentInfo) list" where
  "ELEVENLABS_AGENTS =
     [(''rio'', \<lparr>agent_id = ''agent_1101k5skt77qetsstmz8x7j9t5pv'', label = ''RIO (ElevenLabs)''\<rparr>)]"

definition fromEntries :: "(string \<times> 'v) list \<Rightarrow> (string \<rightharpoonup> 'v)" where
  "fromEntries es = foldl (\<lambda>obj (k, v). obj(k \<mapsto> v)) Map.empty es"

definition createLookup :: "(string \<times> AgentInfo) list \<Rightarrow> (string \<rightharpoonup> AgentInfo)" where
  "createLookup m = fromEntries (map (\<lambda>(key, info). (toLowerCase key, info)) m)"

definition VAPI_LOOKUP :: "string \<rightharpoonup> AgentInfo" where
  "VAPI_LOOKUP = createLookup AGENTS"

definition ELEVENLABS_LOOKUP :: "string \<rightharpoonup> AgentInfo" where
  "ELEVENLABS_LOOKUP = createLookup ELEVENLABS_AGENTS"

text \<open>
  Reading \<open>obj[k]\<close> on an ordinary object gives the own property of that name, else the
  property \<open>Object.prototype\<close> has under that name, else \<open>undefined\<close> (here \<open>None\<close>).
  Every member of \<open>Object.prototype\<close> is a function, but for \<open>__proto__\<close>, which reads as
  \<open>Object.prototype\<close> itself: none of them is \<open>null\<close>, \<open>undefined\<close> or falsy.
\<close>

definition Object_prototype_names :: "string list" where
  "Object_prototype_names =
     [''constructor'', ''__defineGetter__'', ''__defineSetter__'', ''hasOwnProperty'',
      ''__lookupGetter__'', ''__lookupSetter__'', ''isPrototypeOf'', ''propertyIsEnumerable'',
      ''toString'', ''valueOf'', ''__proto__'', ''toLocaleString'']"

datatype 'v property_value = Own 'v | Inherited string

definition get_property :: "(string \<rightharpoonup> 'v) \<Rightarrow> string \<Rightarrow> 'v property_value option" where
  "get_property obj k =
     (case obj k of
        Some v \<Rightarrow> Some (Own v)
      | None \<Rightarrow> if k \<in> set Object_prototype_names then Some (Inherited k) else None)"

definition getAgentByKey ::
  "(string \<rightharpoonup> AgentInfo) \<Rightarrow> string option \<Rightarrow> AgentInfo property_value option" where
  "getAgentByKey lookup key =
     (case key of
        None \<Rightarrow> None
      | Some k \<Rightarrow>
          if k = [] then None
          else
            (let normalized = toLowerCase (trim k) in
             if normalized = [] then None else get_property lookup normalized))"

text \<open>
  The shape rules of the resolver in the words of the specification, read on the trimmed
  payload: nothing left after trimming gives \<open>null\<close>; the scheme prefix gives the trimmed
  final segment; an opening brace gives the trimmed rendering of the \<open>agent\<close> field
  (a null field counting as empty), \<open>null\<close> when the reading fails; anything else gives the
  trimmed payload.
\<close>

definition agent_field :: "jsvalue \<Rightarrow> jsvalue option" where
  "agent_field v = (case v of JObject ps \<Rightarrow> map_of ps ''agent'' | _ \<Rightarrow> None)"

definition resolveAgentKey_rules :: "json_parser \<Rightarrow> string \<Rightarrow> string option" where
  "resolveAgentKey_rules JSON_parse payload =
     (let t = trim payload in
      if t = [] then None
      else if startsWith t ''talkiewalkie://'' then or_null (trim (last (split_str CHR ''/'' t)))
      else if startsWith t ''{'' then
        (case JSON_parse t of
           Inl e \<Rightarrow> None
         | Inr parsed \<Rightarrow>
             (case agent_field parsed of
                None \<Rightarrow> None
              | Some JNull \<Rightarrow> None
              | Some a \<Rightarrow> (case String_js a of Inl e \<Rightarrow> None | Inr v \<Rightarrow> or_null (trim v))))
      else Some t)"

subsection \<open>A reader of JSON texts\<close>

text \<open>
  Where a concrete host is needed, \<open>JSON_parse_model\<close> reads a JSON text by recursive
  descent: white space, the three literals, strings with the one-letter escapes, arrays and
  objects (a repeated key keeps its last value). It reads a number only when it is an integer
  of at most 15 digits, whose rendering is its own text, and no \<open>\u\<close> escape; on everything
  else it throws. The fuel bounds the nesting depth and the number of elements by the length
  of the text.
\<close>

definition json_ws :: "char \<Rightarrow> bool" where
  "json_ws c = (of_char c \<in> {9, 10, 13, 32 :: nat})"

definition unescape :: "char \<Rightarrow> char option" where
  "unescape e =
     (if e = CHR 0x22 \<or> e = CHR 0x5C \<or> e = CHR ''/'' then Some e
      else if e = CHR ''b'' then Some (CHR 0x08)
      else if e = CHR ''f'' then Some (CHR 0x0C)
      else if e = CHR ''n'' then Some (CHR 0x0A)
      else if e = CHR ''r'' then Some (CHR 0x0D)
      else if e = CHR ''t'' then Some (CHR 0x09)
      else None)"

fun read_string :: "string \<Rightarrow> (string \<times> string) option" where
  "read_string [] = None"
| "read_string [c] = (if c = CHR 0x22 then Some ([], []) else None)"
| "read_string (c # e # r) =
     (if c = CHR 0x22 then Some ([], e # r)
      else if c = CHR 0x5C then
        (case unescape e of
           None \<Rightarrow> None
         | Some d \<Rightarrow> map_option (\<lambda>(s, r'). (d # s, r')) (read_string r))
      else if (of_char c :: nat) < 32 then None
      else map_option (\<lambda>(s, r'). (c # s, r')) (read_string (e # r)))"

definition is_digit :: "char \<Rightarrow> bool" where
  "is_digit c = (48 \<le> (of_char c :: nat) \<and> (of_char c :: nat) \<le> 57)"

definition read_number :: "string \<Rightarrow> (jsvalue \<times> string) option" where
  "read_number s =
     (let neg = (s \<noteq> [] \<and> hd s = CHR ''-'');
          body = (if neg then tl s else s);
          ds = takeWhile is_digit body;
          r = dropWhile is_digit body
      in if ds = [] \<or> (hd ds = CHR ''0'' \<and> length ds > 1) \<or> length ds > 15
            \<or> (r \<noteq> [] \<and> hd r \<in> set ''.eE'')
         then None
         else Some (JNumber (if neg \<and> ds \<noteq> ''0'' then CHR ''-'' # ds else ds), r))"

definition set_member ::
  "string \<Rightarrow> jsvalue \<Rightarrow> (string \<times> jsvalue) list \<Rightarrow> (string \<times> jsvalue) list" where
  "set_member k v ps =
     (if k \<in> fst ` set ps
      then map (\<lambda>(k', v'). if k' = k then (k, v) else (k', v')) ps
      else ps @ [(k, v)])"

fun read_value :: "nat \<Rightarrow> string \<Rightarrow> (jsvalue \<times> string) option"
  and read_elements :: "nat \<Rightarrow> jsvalue list \<Rightarrow> string \<Rightarrow> (jsvalue \<times> string) option"
  and read_members ::
    "nat \<Rightarrow> (string \<times> jsvalue) list \<Rightarrow> string \<Rightarrow> (jsvalue \<times> string) option" where
  "read_value 0 s = None"
| "read_value (Suc n) s =
     (case dropWhile json_ws s of
        [] \<Rightarrow> None
      | c # r \<Rightarrow>
          if c = CHR 0x22 then map_option (\<lambda>(t, r'). (JString t, r')) (read_string r)
          else if c = CHR ''['' then
            (case dropWhile json_ws r of
               [] \<Rightarrow> None
             | d # r' \<Rightarrow> if d = CHR '']'' then Some (JArray [], r') else read_elements n [] r)
          else if c = CHR ''{'' then
            (case dropWhile json_ws r of
               [] \<Rightarrow> None
             | d # r' \<Rightarrow> if d = CHR ''}'' then Some (JObject [], r') else read_members n [] r)
          else if startsWith (c # r) ''null'' then Some (JNull, drop 4 (c # r))
          else if startsWith (c # r) ''true'' then Some (JBool True, drop 4 (c # r))
          else if startsWith (c # r) ''false'' then Some (JBool False, drop 5 (c # r))
          else read_number (c # r))"
| "read_elements 0 acc s = None"
| "read_elements (Suc n) acc s =
     (case read_value n s of
        None \<Rightarrow> None
      | Some (v, r) \<Rightarrow>
          (case dropWhile json_ws r of
             [] \<Rightarrow> None
           | c # r' \<Rightarrow>
               if c = CHR '']'' then Some (JArray (acc @ [v]), r')
               else if c = CHR '','' then read_elements n (acc @ [v]) r'
               else None))"
| "read_members 0 acc s = None"
| "read_members (Suc n) acc s =
     (case dropWhile json_ws s of
        [] \<Rightarrow> None
      | q # r0 \<Rightarrow>
          if q \<noteq> CHR 0x22 then None
          else
            (case read_string r0 of
               None \<Rightarrow> None
             | Some (k, r1) \<Rightarrow>
                 (case dropWhile json_ws r1 of
                    [] \<Rightarrow> None
                  | c # r2 \<Rightarrow>
                      if c \<noteq> CHR '':'' then None
                      else
                        (case read_value n r2 of
                           None \<Rightarrow> None
                         | Some (v, r3) \<Rightarrow>
                             (case dropWhile json_ws r3 of
                                [] \<Rightarrow> None
                              | d # r4 \<Rightarrow>
                                  if d = CHR ''}'' then Some (JObject (set_member k v acc), r4)
                                  else if d = CHR '','' then read_members n (set_member k v acc) r4
                                  else None)))))"

definition JSON_parse_model :: json_parser where
  "JSON_parse_model text =
     (case read_value (Suc (length text)) text of
        None \<Rightarrow> Inl (ErrorInstance ''Unexpected token in JSON'')
      | Some (v, r) \<Rightarrow>
          if dropWhile json_ws r = [] then Inr v
          else Inl (ErrorInstance ''Unexpected token in JSON''))"

section \<open>Capability Probe (\<open>queryPermission\<close> in App.tsx)\<close>

text \<open>
  The host either has no \<open>navigator.permissions.query\<close> (\<open>None\<close>) or answers a query for a
  capability: the query fails (it throws, its promise rejects, or it resolves to nothing that
  has a \<open>state\<close>), or it resolves to a status whose \<open>state\<close> is one of the three values of
  the platform, or is missing. \<open>queryPermission\<close> returns the queries it made of the host and
  its own outcome, \<open>Inl\<close> standing for a rejection that reaches the caller.
\<close>

datatype PermissionState = Granted | Denied | Prompt | PERMISSION_UNSUPPORTED

datatype MediaPermissionName = Camera | Microphone

datatype platform_state = State_granted | State_denied | State_prompt

datatype query_outcome = QueryFails thrown | QueryResolves "platform_state option"

type_synonym permission_host = "(MediaPermissionName \<Rightarrow> query_outcome) option"

definition as_PermissionState :: "platform_state \<Rightarrow> PermissionState" where
  "as_PermissionState st =
     (case st of State_granted \<Rightarrow> Granted | State_denied \<Rightarrow> Denied | State_prompt \<Rightarrow> Prompt)"

definition isPermissionApiSupported :: "permission_host \<Rightarrow> bool" where
  "isPermissionApiSupported host = (host \<noteq> None)"

definition queryPermission ::
  "permission_host \<Rightarrow> MediaPermissionName
     \<Rightarrow> MediaPermissionName list \<times> (thrown + PermissionState)" where
  "queryPermission host name =
     (if \<not> isPermissionApiSupported host then ([], Inr PERMISSION_UNSUPPORTED)
      else
        (case host of
           None \<Rightarrow> ([name], Inr Prompt)
         | Some query \<Rightarrow>
             ([name],
              (case query name of
                 QueryFails e \<Rightarrow> Inr Prompt
               | QueryResolves None \<Rightarrow> Inr Prompt
               | QueryResolves (Some st) \<Rightarrow> Inr (as_PermissionState st)))))"

section \<open>Flow Orchestrator (App.tsx, the build with two providers)\<close>

datatype Provider = Vapi | Elevenlabs

datatype Stage = Home | Scanning | Resolving | Call

text \<open>
  The state of \<open>App\<close>. The reset token is a count of restarts kept in a number; it is a
  \<open>nat\<close> here. \<open>agent\<close> holds what \<open>getAgentByKey\<close> returned.
\<close>

record app_state =
  provider :: "Provider option"
  stage :: Stage
  agent :: "AgentInfo property_value option"
  message :: "string option"
  scannerError :: "string option"
  scannerResetToken :: nat

definition initial_app_state :: app_state where
  "initial_app_state =
     \<lparr>provider = None, stage = Home, agent = None, message = None, scannerError = None,
      scannerResetToken = 0\<rparr>"

definition enterProvider :: "Provider \<Rightarrow> app_state \<Rightarrow> app_state" where
  "enterProvider next s =
     s\<lparr>provider := Some next, stage := Scanning, agent := None, scannerError := None,
       message := None, scannerResetToken := scannerResetToken s + 1\<rparr>"

definition clearProvider :: "app_state \<Rightarrow> app_state" where
  "clearProvider s =
     s\<lparr>provider := None, stage := Home, agent := None, scannerError := None, message := None\<rparr>"

definition restartScanner :: "bool \<Rightarrow> app_state \<Rightarrow> app_state" where
  "restartScanner clearMessage s =
     (if provider s = None then s
      else
        (let s1 = s\<lparr>stage := Scanning, agent := None, scannerError := None\<rparr>;
             s2 = (if clearMessage then s1\<lparr>message := None\<rparr> else s1)
         in s2\<lparr>scannerResetToken := scannerResetToken s2 + 1\<rparr>))"

text \<open>
  \<open>handleDetection\<close>. \<open>!key\<close> holds of \<open>null\<close> and of the empty string; \<open>!info\<close> holds of
  \<open>null\<close> only, an object or function being truthy. An exception of \<open>resolveAgentKey\<close>
  would leave the handler after its first two updates.
\<close>

definition handleDetection :: "json_parser \<Rightarrow> string \<Rightarrow> app_state \<Rightarrow> app_state" where
  "handleDetection JSON_parse payload s =
     (case provider s of
        None \<Rightarrow> s
      | Some p \<Rightarrow>
          (let s1 = s\<lparr>stage := Resolving, message := None\<rparr> in
           case resolveAgentKey JSON_parse payload of
             Inl e \<Rightarrow> s1
           | Inr key \<Rightarrow>
               if key = None \<or> key = Some [] then
                 restartScanner False
                   (s1\<lparr>message := Some ''Could not read this QR code. Please try again.''\<rparr>)
               else
                 (let lookup = (if p = Elevenlabs then ELEVENLABS_LOOKUP else VAPI_LOOKUP) in
                  case getAgentByKey lookup key of
                    None \<Rightarrow>
                      restartScanner False
                        (s1\<lparr>message := Some ''Unknown agent. Please scan a TalkieWalkie QR.''\<rparr>)
                  | Some info \<Rightarrow> s1\<lparr>agent := Some info, stage := Call\<rparr>)))"

section \<open>Voice Session Controller, Vapi (CallScreen.tsx with push-to-talk)\<close>

text \<open>
  The state of the component: its four state cells and \<open>statusRef\<close>, together with the
  calls it has made on the Vapi client so far. Whether a call of \<open>vapi.setMuted\<close> or
  \<open>vapi.stop\<close> throws is decided by the client: each handler takes it as an argument.
\<close>

datatype CallStatus = Idle | Connecting | Live | Ended | Error

datatype vapi_call = Vapi_start string | Vapi_stop | Vapi_setMuted bool

record call_screen =
  status :: CallStatus
  error :: "string option"
  statusRef :: CallStatus
  isHolding :: bool
  isMuted :: bool
  vapi_calls :: "vapi_call list"

definition initial_call_screen :: call_screen where
  "initial_call_screen =
     \<lparr>status = Idle, error = None, statusRef = Idle, isHolding = False, isMuted = True,
      vapi_calls = []\<rparr>"

text \<open>\<open>setIsMuted\<close> follows \<open>vapi.setMuted\<close> inside the \<open>try\<close>: it is skipped when that throws.\<close>

definition applyMuteState :: "bool \<Rightarrow> bool \<Rightarrow> call_screen \<Rightarrow> call_screen" where
  "applyMuteState setMuted_throws mute s =
     (let s1 = s\<lparr>vapi_calls := vapi_calls s @ [Vapi_setMuted mute]\<rparr>
      in if setMuted_throws then s1 else s1\<lparr>isMuted := mute\<rparr>)"

text \<open>
  The effect on \<open>[status]\<close>, and the render that follows a handler: the effect runs when the
  status differs from the one rendered before.
\<close>

definition status_effect :: "call_screen \<Rightarrow> call_screen" where
  "status_effect s =
     (let s1 = s\<lparr>statusRef := status s\<rparr>
      in if status s \<noteq> Live then s1\<lparr>isHolding := False\<rparr> else s1)"

definition commit :: "call_screen \<Rightarrow> call_screen \<Rightarrow> call_screen" where
  "commit before s = (if status s \<noteq> status before then status_effect s else s)"

text \<open>
  \<open>requestMicrophonePermission\<close>: the value it throws, if any. The host has no
  \<open>getUserMedia\<close>, or its request is refused, or it grants a stream, which is stopped.
\<close>

datatype microphone_host = No_getUserMedia | GetUserMedia_rejects thrown | GetUserMedia_resolves

definition requestMicrophonePermission :: "microphone_host \<Rightarrow> thrown option" where
  "requestMicrophonePermission host =
     (case host of
        No_getUserMedia \<Rightarrow>
          Some (ErrorInstance ''Microphone access is not supported in this browser.'')
      | GetUserMedia_rejects e \<Rightarrow> Some e
      | GetUserMedia_resolves \<Rightarrow> None)"

definition error_message :: "thrown \<Rightarrow> string \<Rightarrow> string" where
  "error_message err fallback = (case err of ErrorInstance m \<Rightarrow> m | NonErrorValue \<Rightarrow> fallback)"

text \<open>
  \<open>startCall\<close> is asynchronous. Its first part runs to the first \<open>await\<close>: it returns the
  state and whether the body went past the guard and is now suspended. The later parts run
  when the awaited promises settle, other handlers running in between.
\<close>

definition startCall :: "call_screen \<Rightarrow> call_screen \<times> bool" where
  "startCall s =
     (if statusRef s = Connecting \<or> statusRef s = Live then (s, False)
      else (s\<lparr>error := None, status := Connecting\<rparr>, True))"

definition startCall_catch :: "thrown \<Rightarrow> bool \<Rightarrow> call_screen \<Rightarrow> call_screen" where
  "startCall_catch err setMuted_throws s =
     applyMuteState setMuted_throws True
       (s\<lparr>status := Error, error := Some (error_message err ''Could not start the call.'')\<rparr>)"

definition startCall_after_microphone ::
  "string \<Rightarrow> microphone_host \<Rightarrow> bool \<Rightarrow> call_screen \<Rightarrow> call_screen" where
  "startCall_after_microphone assistantId host setMuted_throws s =
     (case requestMicrophonePermission host of
        Some err \<Rightarrow> startCall_catch err setMuted_throws s
      | None \<Rightarrow> s\<lparr>vapi_calls := vapi_calls s @ [Vapi_start assistantId]\<rparr>)"

definition startCall_after_start :: "thrown option \<Rightarrow> bool \<Rightarrow> call_screen \<Rightarrow> call_screen" where
  "startCall_after_start rejected setMuted_throws s =
     (case rejected of
        None \<Rightarrow> applyMuteState setMuted_throws True s
      | Some err \<Rightarrow> startCall_catch err setMuted_throws s)"

text \<open>
  \<open>endCall\<close>: \<open>try { vapi.stop() } finally { ... }\<close>. The second component is the exception
  that leaves \<open>endCall\<close>: what \<open>vapi.stop\<close> threw, the \<open>finally\<close> block having run.
\<close>

definition endCall :: "thrown option \<Rightarrow> bool \<Rightarrow> call_screen \<Rightarrow> call_screen \<times> thrown option" where
  "endCall stop_throws setMuted_throws s =
     (let s1 = s\<lparr>vapi_calls := vapi_calls s @ [Vapi_stop]\<rparr>;
          s2 = applyMuteState setMuted_throws True s1
      in (s2\<lparr>isHolding := False, status := Ended\<rparr>, stop_throws))"

definition handleHoldStart :: "bool \<Rightarrow> call_screen \<Rightarrow> call_screen" where
  "handleHoldStart setMuted_throws s =
     (if statusRef s \<noteq> Live \<or> isHolding s then s
      else applyMuteState setMuted_throws False (s\<lparr>isHolding := True\<rparr>))"

definition handleHoldEnd :: "bool \<Rightarrow> call_screen \<Rightarrow> call_screen" where
  "handleHoldEnd setMuted_throws s =
     (if \<not> isHolding s then s
      else applyMuteState setMuted_throws True (s\<lparr>isHolding := False\<rparr>))"

definition handleCallStart :: "bool \<Rightarrow> call_screen \<Rightarrow> call_screen" where
  "handleCallStart setMuted_throws s =
     applyMuteState setMuted_throws True (s\<lparr>status := Live, isHolding := False\<rparr>)"

definition handleCallEnd :: "bool \<Rightarrow> call_screen \<Rightarrow> call_screen" where
  "handleCallEnd setMuted_throws s =
     applyMuteState setMuted_throws True (s\<lparr>status := Ended, isHolding := False\<rparr>)"

definition handleCallStartFailed :: "bool \<Rightarrow> call_screen \<Rightarrow> call_screen" where
  "handleCallStartFailed setMuted_throws s =
     (applyMuteState setMuted_throws True (s\<lparr>status := Error, isHolding := False\<rparr>))
       \<lparr>error := Some ''Unable to connect to the assistant. Please try again.''\<rparr>"

definition handleError :: "bool \<Rightarrow> call_screen \<Rightarrow> call_screen" where
  "handleError setMuted_throws s =
     (applyMuteState setMuted_throws True (s\<lparr>status := Error, isHolding := False\<rparr>))
       \<lparr>error := Some ''A call error occurred. Please try again.''\<rparr>"

text \<open>
  What can happen to a mounted screen: a command of the user, a promise of \<open>startCall\<close>
  settling, or an event of the client. A step is the handler followed by the render; a run
  starts from the initial state. The later parts of \<open>startCall\<close> are allowed at any time,
  which only adds states. The Back button and the cleanup on unmount end the life of the
  screen and are not steps of it.
\<close>

datatype call_event =
    StartCall
  | MicrophoneSettled microphone_host bool
  | StartSettled "thrown option" bool
  | EndCall "thrown option" bool
  | HoldStart bool
  | HoldEnd bool
  | CallStartEvent bool
  | CallEndEvent bool
  | CallStartFailedEvent bool
  | ErrorEvent bool

fun handle_call_event :: "string \<Rightarrow> call_event \<Rightarrow> call_screen \<Rightarrow> call_screen" where
  "handle_call_event a StartCall s = fst (startCall s)"
| "handle_call_event a (MicrophoneSettled host mt) s = startCall_after_microphone a host mt s"
| "handle_call_event a (StartSettled rejected mt) s = startCall_after_start rejected mt s"
| "handle_call_event a (EndCall stop_throws mt) s = fst (endCall stop_throws mt s)"
| "handle_call_event a (HoldStart mt) s = handleHoldStart mt s"
| "handle_call_event a (HoldEnd mt) s = handleHoldEnd mt s"
| "handle_call_event a (CallStartEvent mt) s = handleCallStart mt s"
| "handle_call_event a (CallEndEvent mt) s = handleCallEnd mt s"
| "handle_call_event a (CallStartFailedEvent mt) s = handleCallStartFailed mt s"
| "handle_call_event a (ErrorEvent mt) s = handleError mt s"

definition call_step :: "string \<Rightarrow> call_event \<Rightarrow> call_screen \<Rightarrow> call_screen" where
  "call_step a e s = commit s (handle_call_event a e s)"

definition run_call_screen :: "string \<Rightarrow> call_event list \<Rightarrow> call_screen" where
  "run_call_screen a es = foldl (\<lambda>s e. call_step a e s) initial_call_screen es"

section \<open>Voice Session Controller, ElevenLabs (ElevenLabsCallScreen.tsx)\<close>

text \<open>
  The same cells, written with the suffix \<open>_el\<close> where the name is taken, and the calls made
  on the conversation. The microphone follows the cell \<open>isMicMuted\<close> through the hook, so
  no call can fail when it is set. \<open>conversation.endSession\<close> returns a promise: its
  failure is a rejection, handled by the \<open>catch\<close> attached to it.
\<close>

datatype conversation_call = Conversation_startSession string | Conversation_endSession

datatype conversation_status =
  Conv_connecting | Conv_connected | Conv_disconnecting | Conv_disconnected

record el_screen =
  status_el :: CallStatus
  error_el :: "string option"
  isHolding_el :: bool
  isMicMuted :: bool
  statusRef_el :: CallStatus
  conversation_calls :: "conversation_call list"

definition initial_el_screen :: el_screen where
  "initial_el_screen =
     \<lparr>status_el = Idle, error_el = None, isHolding_el = False, isMicMuted = True,
      statusRef_el = Idle, conversation_calls = []\<rparr>"

definition onStatusChange :: "conversation_status \<Rightarrow> el_screen \<Rightarrow> el_screen" where
  "onStatusChange st s =
     (let s1 = (if st = Conv_connected then s\<lparr>status_el := Live\<rparr> else s)
      in if st = Conv_disconnecting \<or> st = Conv_disconnected
         then s1\<lparr>status_el := Ended, isHolding_el := False, isMicMuted := True\<rparr>
         else s1)"

definition onDisconnect :: "el_screen \<Rightarrow> el_screen" where
  "onDisconnect s = s\<lparr>status_el := Ended, isHolding_el := False, isMicMuted := True\<rparr>"

definition onError :: "string \<Rightarrow> el_screen \<Rightarrow> el_screen" where
  "onError msg s =
     s\<lparr>status_el := Error, error_el := Some msg, isHolding_el := False, isMicMuted := True\<rparr>"

definition status_effect_el :: "el_screen \<Rightarrow> el_screen" where
  "status_effect_el s = s\<lparr>statusRef_el := status_el s\<rparr>"

definition commit_el :: "el_screen \<Rightarrow> el_screen \<Rightarrow> el_screen" where
  "commit_el before s = (if status_el s \<noteq> status_el before then status_effect_el s else s)"

definition ensureMicrophonePermission :: "microphone_host \<Rightarrow> thrown option" where
  "ensureMicrophonePermission host =
     (case host of
        No_getUserMedia \<Rightarrow>
          Some (ErrorInstance ''Microphone access is not supported in this browser.'')
      | GetUserMedia_rejects e \<Rightarrow> Some e
      | GetUserMedia_resolves \<Rightarrow> None)"

text \<open>
  \<open>startSession\<close>, in the same parts as \<open>startCall\<close>. The API key is a constant of the
  module read from the environment: absent, or a string, falsy when empty.
\<close>

definition startSession :: "string option \<Rightarrow> el_screen \<Rightarrow> el_screen \<times> bool" where
  "startSession ELEVENLABS_API_KEY s =
     (if statusRef_el s = Connecting \<or> statusRef_el s = Live then (s, False)
      else if ELEVENLABS_API_KEY = None \<or> ELEVENLABS_API_KEY = Some [] then
        (s\<lparr>error_el := Some ''Missing ElevenLabs API key. Set VITE_ELEVENLABS_API_KEY and reload.'',
           status_el := Error\<rparr>, False)
      else (s\<lparr>error_el := None, status_el := Connecting\<rparr>, True))"

definition startSession_catch :: "thrown \<Rightarrow> el_screen \<Rightarrow> el_screen" where
  "startSession_catch err s =
     s\<lparr>error_el := Some (error_message err ''Could not start the ElevenLabs conversation.''),
       status_el := Error, isMicMuted := True\<rparr>"

definition startSession_after_microphone ::
  "string \<Rightarrow> microphone_host \<Rightarrow> el_screen \<Rightarrow> el_screen" where
  "startSession_after_microphone agentId host s =
     (case ensureMicrophonePermission host of
        Some err \<Rightarrow> startSession_catch err s
      | None \<Rightarrow> s\<lparr>conversation_calls := conversation_calls s @ [Conversation_startSession agentId]\<rparr>)"

definition startSession_after_start :: "thrown option \<Rightarrow> el_screen \<Rightarrow> el_screen" where
  "startSession_after_start rejected s =
     (case rejected of
        None \<Rightarrow> s\<lparr>isMicMuted := True, status_el := Live\<rparr>
      | Some err \<Rightarrow> startSession_catch err s)"

text \<open>
  \<open>endSession\<close>: the rejection of \<open>conversation.endSession()\<close>, if any, is logged by the
  \<open>catch\<close>; the second component is the exception that leaves \<open>endSession\<close>.
\<close>

definition endSession :: "thrown option \<Rightarrow> el_screen \<Rightarrow> el_screen \<times> thrown option" where
  "endSession rejected s =
     (s\<lparr>conversation_calls := conversation_calls s @ [Conversation_endSession],
        status_el := Ended, isHolding_el := False, isMicMuted := True\<rparr>,
      None)"

definition handleHoldStart_el :: "el_screen \<Rightarrow> el_screen" where
  "handleHoldStart_el s =
     (if statusRef_el s \<noteq> Live \<or> isHolding_el s then s
      else s\<lparr>isHolding_el := True, isMicMuted := False\<rparr>)"

definition handleHoldEnd_el :: "el_screen \<Rightarrow> el_screen" where
  "handleHoldEnd_el s =
     (if \<not> isHolding_el s then s else s\<lparr>isHolding_el := False, isMicMuted := True\<rparr>)"

datatype el_event =
    StartSession
  | EL_MicrophoneSettled microphone_host
  | EL_StartSettled "thrown option"
  | EndSession "thrown option"
  | EL_HoldStart
  | EL_HoldEnd
  | StatusChange conversation_status
  | Disconnect
  | ConversationError string

fun handle_el_event :: "string option \<Rightarrow> string \<Rightarrow> el_event \<Rightarrow> el_screen \<Rightarrow> el_screen" where
  "handle_el_event key a StartSession s = fst (startSession key s)"
| "handle_el_event key a (EL_MicrophoneSettled host) s = startSession_after_microphone a host s"
| "handle_el_event key a (EL_StartSettled rejected) s = startSession_after_start rejected s"
| "handle_el_event key a (EndSession rejected) s = fst (endSession rejected s)"
| "handle_el_event key a EL_HoldStart s = handleHoldStart_el s"
| "handle_el_event key a EL_HoldEnd s = handleHoldEnd_el s"
| "handle_el_event key a (StatusChange st) s = onStatusChange st s"
| "handle_el_event key a Disconnect s = onDisconnect s"
| "handle_el_event key a (ConversationError msg) s = onError msg s"

definition el_step :: "string option \<Rightarrow> string \<Rightarrow> el_event \<Rightarrow> el_screen \<Rightarrow> el_screen" where
  "el_step key a e s = commit_el s (handle_el_event key a e s)"

definition run_el_screen :: "string option \<Rightarrow> string \<Rightarrow> el_event list \<Rightarrow> el_screen" where
  "run_el_screen key a es = foldl (\<lambda>s e. el_step key a e s) initial_el_screen es"

section \<open>Properties of the Payload Resolver\<close>

subsection \<open>Trimming and splitting\<close>

lemma trim_Nil: "trim [] = []"
  by (simp add: trim_def)

lemma trim_blank: "\<forall>c\<in>set s. isWhiteSpace c \<Longrightarrow> trim s = []"
  by (auto simp: trim_def dest: set_dropWhileD)

lemma split_str_not_Nil: "split_str sep s \<noteq> []"
  by (induction s) (auto split: list.splits)

lemma pop_split_str: "pop (split_str sep s) = Some (last (split_str sep s))"
  by (simp add: pop_def split_str_not_Nil)

lemma trim_keeps_head:
  assumes "\<not> isWhiteSpace c"
  shows "\<exists>r'. trim (c # r) = c # r'"
proof -
  have a: "dropWhile isWhiteSpace (c # r) = c # r" using assms by simp
  have "\<exists>xs. dropWhile isWhiteSpace (rev r @ [c]) = xs @ [c]"
    using assms by (cases "\<forall>x\<in>set (rev r). isWhiteSpace x") (auto simp: dropWhile_append)
  then obtain xs where "dropWhile isWhiteSpace (rev (c # r)) = xs @ [c]" by auto
  then show ?thesis using a by (simp add: trim_def)
qed

lemma brace_not_WhiteSpace: "\<not> isWhiteSpace (CHR ''{'')"
  by (simp add: isWhiteSpace_def)

lemma startsWith_brace_trim:
  assumes "startsWith payload ''{''"
  shows "startsWith (trim payload) ''{'' \<and> \<not> startsWith (trim payload) ''talkiewalkie://''"
proof -
  from assms obtain r where p: "payload = CHR ''{'' # r"
    by (cases payload) (auto simp: startsWith_def)
  from trim_keeps_head[OF brace_not_WhiteSpace, of r] obtain r' where "trim payload = CHR ''{'' # r'"
    using p by auto
  then show ?thesis by (simp add: startsWith_def)
qed

lemma resolveAgentKey_rules_eq:
  assumes "payload = [] \<or> trim payload \<noteq> []"
  shows "resolveAgentKey P payload = Inr (resolveAgentKey_rules P payload)"
proof (cases "payload = []")
  case True
  then show ?thesis by (simp add: resolveAgentKey_def resolveAgentKey_rules_def trim_Nil)
next
  case False
  with assms have t: "trim payload \<noteq> []" by simp
  have obj: "(if truthy v \<and> typeof_object v \<and> has_agent v
               then (case String_js (agent_or_empty v) of Inl e \<Rightarrow> Throws e | Inr w \<Rightarrow> Returns (or_null (trim w)))
               else Returns None) =
            (case agent_field v of None \<Rightarrow> Returns None | Some JNull \<Rightarrow> Returns None
             | Some a \<Rightarrow> (case String_js a of Inl e \<Rightarrow> Throws e | Inr w \<Rightarrow> Returns (or_null (trim w))))" for v
  proof (cases v)
    case (JObject ps)
    have h: "has_agent v = (map_of ps ''agent'' \<noteq> None)"
      by (simp add: JObject has_agent_def map_of_eq_None_iff)
    show ?thesis
    proof (cases "map_of ps ''agent''")
      case None
      then show ?thesis using h by (simp add: JObject agent_field_def)
    next
      case (Some a)
      then show ?thesis using h
        by (cases a) (simp_all add: JObject agent_field_def agent_or_empty_def truthy_def
            typeof_object_def or_null_def trim_Nil)
    qed
  qed (simp_all add: has_agent_def agent_field_def)
  show ?thesis
    using False t
    by (simp add: resolveAgentKey_def resolveAgentKey_rules_def resolveAgentKey_try_def Let_def
        pop_split_str obj split: sum.splits option.splits jsvalue.splits)
qed

lemma resolveAgentKey_never_throws: "\<exists>r. resolveAgentKey P payload = Inr r"
  by (simp add: resolveAgentKey_def Let_def split: try_outcome.splits)

lemma resolveAgentKey_malformed:
  assumes "startsWith payload ''{''" and "P (trim payload) = Inl e"
  shows "resolveAgentKey P payload = Inr None"
proof -
  have "payload \<noteq> []" using assms(1) by (auto simp: startsWith_def)
  moreover note startsWith_brace_trim[OF assms(1)]
  ultimately show ?thesis using assms(2)
    by (simp add: resolveAgentKey_def resolveAgentKey_try_def Let_def)
qed

lemma resolveAgentKey_blank:
  assumes "payload \<noteq> []" and "\<forall>c\<in>set payload. isWhiteSpace c"
  shows "resolveAgentKey P payload = Inr (Some [])"
  using assms by (simp add: resolveAgentKey_def resolveAgentKey_try_def trim_blank startsWith_def)

lemma trim_rio: "trim ''rio'' = ''rio''"
  by (simp add: trim_def isWhiteSpace_def)

lemma example_plain: "resolveAgentKey P ''rio'' = Inr (Some ''rio'')"
  by (simp add: resolveAgentKey_def resolveAgentKey_try_def trim_rio startsWith_def)

lemma trim_uri: "trim ''talkiewalkie://agent/rio'' = ''talkiewalkie://agent/rio''"
  by (simp add: trim_def isWhiteSpace_def)

lemma example_uri: "resolveAgentKey P ''talkiewalkie://agent/rio'' = Inr (Some ''rio'')"
  by (simp add: resolveAgentKey_def resolveAgentKey_try_def trim_uri startsWith_def pop_def
      or_null_def trim_rio)

lemma example_empty: "resolveAgentKey P [] = Inr None"
  by (simp add: resolveAgentKey_def)

lemma example_json:
  assumes \<open>P ''{"agent":"rio"}'' = Inr (JObject [(''agent'', JString ''rio'')])\<close>
  shows \<open>resolveAgentKey P ''{"agent":"rio"}'' = Inr (Some ''rio'')\<close>
proof -
  have t: \<open>trim ''{"agent":"rio"}'' = ''{"agent":"rio"}''\<close>
    by (simp add: trim_def isWhiteSpace_def)
  show ?thesis using assms
    by (simp add: resolveAgentKey_def resolveAgentKey_try_def t startsWith_def truthy_def
        typeof_object_def has_agent_def agent_or_empty_def or_null_def trim_rio)
qed

lemma example_json_empty:
  assumes \<open>P ''{"agent":""}'' = Inr (JObject [(''agent'', JString [])])\<close>
  shows \<open>resolveAgentKey P ''{"agent":""}'' = Inr None\<close>
proof -
  have t: \<open>trim ''{"agent":""}'' = ''{"agent":""}''\<close>
    by (simp add: trim_def isWhiteSpace_def)
  show ?thesis using assms
    by (simp add: resolveAgentKey_def resolveAgentKey_try_def t startsWith_def truthy_def
        typeof_object_def has_agent_def agent_or_empty_def or_null_def trim_Nil)
qed

text \<open>
  C4. The claim: an empty or whitespace-only payload resolves to \<open>null\<close>. The empty payload
  does (\<open>example_empty\<close>). A payload that is not empty and holds white space only passes
  the test \<open>!payload\<close>, is trimmed to the empty string, matches neither prefix, and is
  returned as it is: the result is the empty string, not \<open>null\<close>.
\<close>

theorem resolveAgentKey_whitespace_only:
  assumes "payload \<noteq> []" and "\<forall>c\<in>set payload. isWhiteSpace c"
  shows "resolveAgentKey JSON_parse payload = Inr (Some [])"
  using assms by (rule resolveAgentKey_blank)

theorem resolveAgentKey_whitespace_only_witness:
  "''   '' \<noteq> [] \<and> list_all isWhiteSpace ''   '' \<and>
   resolveAgentKey JSON_parse_model ''   '' = Inr (Some [])"
proof -
  have a: "''   '' \<noteq> []" by simp
  have b: "\<forall>c\<in>set ''   ''. isWhiteSpace c" by (simp add: isWhiteSpace_def)
  from resolveAgentKey_whitespace_only[OF a b, of JSON_parse_model] a b show ?thesis
    by (simp add: list_all_iff)
qed

text \<open>
  C5. The shape rules hold on the trimmed payload, for every payload but those made of
  white space only: the scheme prefix gives the trimmed final segment (\<open>null\<close> if empty);
  an opening brace gives the trimmed rendering of the \<open>agent\<close> field of the parsed object,
  \<open>null\<close> when the parse or the rendering throws, when the field is absent or null, or when
  the trimmed rendering is empty; anything else gives the trimmed payload. The five examples
  hold, the two structured ones for every parser that reads their text as the object it
  denotes.
\<close>

theorem resolveAgentKey_follows_rules:
  \<open>(payload = [] \<or> trim payload \<noteq> [] \<longrightarrow>
      resolveAgentKey JSON_parse payload = Inr (resolveAgentKey_rules JSON_parse payload))
   \<and> resolveAgentKey JSON_parse ''rio'' = Inr (Some ''rio'')
   \<and> resolveAgentKey JSON_parse ''talkiewalkie://agent/rio'' = Inr (Some ''rio'')
   \<and> (JSON_parse ''{"agent":"rio"}'' = Inr (JObject [(''agent'', JString ''rio'')]) \<longrightarrow>
        resolveAgentKey JSON_parse ''{"agent":"rio"}'' = Inr (Some ''rio''))
   \<and> resolveAgentKey JSON_parse [] = Inr None
   \<and> (JSON_parse ''{"agent":""}'' = Inr (JObject [(''agent'', JString [])]) \<longrightarrow>
        resolveAgentKey JSON_parse ''{"agent":""}'' = Inr None)\<close>
  using resolveAgentKey_rules_eq example_plain example_uri example_json example_empty
    example_json_empty
  by blast

theorem resolveAgentKey_follows_rules_witness:
  \<open>trim '' talkiewalkie://agent/rio '' \<noteq> []
   \<and> resolveAgentKey JSON_parse_model '' talkiewalkie://agent/rio '' = Inr (Some ''rio'')
   \<and> JSON_parse_model ''{"agent":"rio"}'' = Inr (JObject [(''agent'', JString ''rio'')])
   \<and> resolveAgentKey JSON_parse_model ''{"agent":"rio"}'' = Inr (Some ''rio'')
   \<and> JSON_parse_model ''{"agent":""}'' = Inr (JObject [(''agent'', JString [])])
   \<and> resolveAgentKey JSON_parse_model ''{"agent":""}'' = Inr None\<close>
proof -
  have a: \<open>trim '' talkiewalkie://agent/rio '' \<noteq> []\<close> by code_simp
  have b: \<open>resolveAgentKey_rules JSON_parse_model '' talkiewalkie://agent/rio '' = Some ''rio''\<close>
    by code_simp
  have c: \<open>JSON_parse_model ''{"agent":"rio"}'' = Inr (JObject [(''agent'', JString ''rio'')])\<close>
    by code_simp
  have d: \<open>JSON_parse_model ''{"agent":""}'' = Inr (JObject [(''agent'', JString [])])\<close>
    by code_simp
  from resolveAgentKey_follows_rules[of "'' talkiewalkie://agent/rio ''" JSON_parse_model] a b c d
  show ?thesis by simp
qed

text \<open>
  The rules as the claim words them test the payload itself: a payload with a space before
  the scheme prefix begins with neither the prefix nor a brace, and is resolved to its
  final segment all the same, not to its trimmed text.
\<close>

theorem resolveAgentKey_leading_space_counterexample:
  "\<not> (\<not> startsWith '' talkiewalkie://agent/rio'' ''talkiewalkie://''
        \<and> \<not> startsWith '' talkiewalkie://agent/rio'' ''{''
      \<longrightarrow> resolveAgentKey JSON_parse_model '' talkiewalkie://agent/rio''
            = Inr (Some (trim '' talkiewalkie://agent/rio'')))"
  by code_simp

text \<open>
  C6. \<open>resolveAgentKey\<close> is a function of the parser and the payload, and no exception
  leaves it, whatever the parser does: every outcome is a returned value. For a payload that
  begins with a brace, if the parser throws on the text handed to it, the result is \<open>null\<close>.
\<close>

theorem resolveAgentKey_total:
  "(\<exists>r. resolveAgentKey JSON_parse payload = Inr r)
   \<and> (startsWith payload ''{'' \<and> (\<exists>e. JSON_parse (trim payload) = Inl e) \<longrightarrow>
        resolveAgentKey JSON_parse payload = Inr None)"
  using resolveAgentKey_never_throws resolveAgentKey_malformed by blast

theorem resolveAgentKey_total_witness:
  \<open>startsWith ''{"agent":'' ''{''
   \<and> (\<exists>e. JSON_parse_model (trim ''{"agent":'') = Inl e)
   \<and> resolveAgentKey JSON_parse_model ''{"agent":'' = Inr None\<close>
proof -
  have a: \<open>startsWith ''{"agent":'' ''{''\<close> by code_simp
  have b: \<open>JSON_parse_model (trim ''{"agent":'') = Inl (ErrorInstance ''Unexpected token in JSON'')\<close>
    by code_simp
  from resolveAgentKey_total[of JSON_parse_model \<open>''{"agent":''\<close>] a b show ?thesis by blast
qed

subsection \<open>Lower case and the lookup table\<close>
















section \<open>Properties of the Capability Probe\<close>

text \<open>
  C9. For either capability, \<open>queryPermission\<close> answers \<open>unsupported\<close> without a query when
  the host has no permission query; when the host has one and the query fails, the answer is
  \<open>prompt\<close>; and no failure leaves \<open>queryPermission\<close>.
\<close>

theorem queryPermission_swallows_failures:
  "(host = None \<longrightarrow> queryPermission host name = ([], Inr PERMISSION_UNSUPPORTED))
   \<and> (host = Some query \<and> query name = QueryFails e \<longrightarrow>
        queryPermission host name = ([name], Inr Prompt))
   \<and> (\<exists>r. snd (queryPermission host name) = Inr r)"
  by (auto simp: queryPermission_def isPermissionApiSupported_def
      split: option.splits query_outcome.splits)

theorem queryPermission_swallows_failures_witness:
  "queryPermission None Camera = ([], Inr PERMISSION_UNSUPPORTED)
   \<and> queryPermission None Microphone = ([], Inr PERMISSION_UNSUPPORTED)
   \<and> queryPermission (Some (\<lambda>n. QueryFails NonErrorValue)) Camera = ([Camera], Inr Prompt)
   \<and> queryPermission (Some (\<lambda>n. QueryFails NonErrorValue)) Microphone = ([Microphone], Inr Prompt)"
  using queryPermission_swallows_failures[of None Camera "\<lambda>n. QueryFails NonErrorValue" NonErrorValue]
    queryPermission_swallows_failures[of None Microphone "\<lambda>n. QueryFails NonErrorValue" NonErrorValue]
    queryPermission_swallows_failures[of "Some (\<lambda>n. QueryFails NonErrorValue)" Camera
      "\<lambda>n. QueryFails NonErrorValue" NonErrorValue]
    queryPermission_swallows_failures[of "Some (\<lambda>n. QueryFails NonErrorValue)" Microphone
      "\<lambda>n. QueryFails NonErrorValue" NonErrorValue]
  by simp

section \<open>Properties of the Flow Orchestrator\<close>

lemma resolve_constructor: "resolveAgentKey P ''constructor'' = Inr (Some ''constructor'')"
proof -
  have t: "trim ''constructor'' = ''constructor''" by (simp add: trim_def isWhiteSpace_def)
  show ?thesis
    by (simp add: resolveAgentKey_def resolveAgentKey_try_def t startsWith_def)
qed

lemma lookup_constructor:
  "getAgentByKey VAPI_LOOKUP (Some ''constructor'') = Some (Inherited ''constructor'')"
  "getAgentByKey ELEVENLABS_LOOKUP (Some ''constructor'') = Some (Inherited ''constructor'')"
  "VAPI_LOOKUP ''constructor'' = None"
  "ELEVENLABS_LOOKUP ''constructor'' = None"
  by code_simp+

lemma handleDetection_unreadable:
  assumes "provider s \<noteq> None"
    and "resolveAgentKey JSON_parse payload = Inr None \<or> resolveAgentKey JSON_parse payload = Inr (Some [])"
  shows "handleDetection JSON_parse payload s
           = s\<lparr>stage := Scanning, agent := None, scannerError := None,
               message := Some ''Could not read this QR code. Please try again.'',
               scannerResetToken := scannerResetToken s + 1\<rparr>"
  using assms by (auto simp: handleDetection_def restartScanner_def Let_def)

lemma handleDetection_unknown:
  assumes "provider s = Some p"
    and "resolveAgentKey JSON_parse payload = Inr (Some k)" and "k \<noteq> []"
    and "getAgentByKey (if p = Elevenlabs then ELEVENLABS_LOOKUP else VAPI_LOOKUP) (Some k) = None"
  shows "handleDetection JSON_parse payload s
           = s\<lparr>stage := Scanning, agent := None, scannerError := None,
               message := Some ''Unknown agent. Please scan a TalkieWalkie QR.'',
               scannerResetToken := scannerResetToken s + 1\<rparr>"
  using assms by (auto simp: handleDetection_def restartScanner_def Let_def)

lemma handleDetection_known:
  assumes "provider s = Some p"
    and "resolveAgentKey JSON_parse payload = Inr (Some k)" and "k \<noteq> []"
    and "getAgentByKey (if p = Elevenlabs then ELEVENLABS_LOOKUP else VAPI_LOOKUP) (Some k) = Some info"
  shows "handleDetection JSON_parse payload s = s\<lparr>stage := Call, message := None, agent := Some info\<rparr>"
  using assms by (auto simp: handleDetection_def Let_def)

lemma handleDetection_rio:
  assumes "provider s = Some Vapi"
  shows "handleDetection JSON_parse ''rio'' s
     = s\<lparr>stage := Call, message := None,
         agent := Some (Own \<lparr>agent_id = ''1e171fee-c39d-4848-a6fd-2e658a442ff0'', label = ''RIO''\<rparr>)\<rparr>"
proof -
  have a: "resolveAgentKey JSON_parse ''rio'' = Inr (Some ''rio'')" by (rule example_plain)
  have b: "getAgentByKey VAPI_LOOKUP (Some ''rio'')
     = Some (Own \<lparr>agent_id = ''1e171fee-c39d-4848-a6fd-2e658a442ff0'', label = ''RIO''\<rparr>)"
    by code_simp
  show ?thesis using handleDetection_known[OF assms a] b by simp
qed

text \<open>
  C8. The claim: a payload whose key is \<open>null\<close> or matches no agent of the provider's table
  sets a message and returns to scanning with a greater reset token, the message kept; a
  payload of a known agent stores it and goes to the call stage. The three lemmas above show
  this whenever \<open>getAgentByKey\<close> answers \<open>null\<close> or an agent. The payload \<open>constructor\<close>
  is a key of neither table, yet the lookup object inherits a member of that name: the
  handler stores it as the agent and goes to the call stage, with no message and the token
  unchanged.
\<close>

theorem handleDetection_inherited_name:
  assumes "provider s = Some p"
  shows "handleDetection JSON_parse ''constructor'' s
           = s\<lparr>stage := Call, message := None, agent := Some (Inherited ''constructor'')\<rparr>
         \<and> VAPI_LOOKUP ''constructor'' = None \<and> ELEVENLABS_LOOKUP ''constructor'' = None"
  using assms
  by (simp add: handleDetection_def resolve_constructor lookup_constructor)

theorem handleDetection_inherited_name_witness:
  "provider (enterProvider Vapi initial_app_state) = Some Vapi
   \<and> stage (handleDetection JSON_parse_model ''constructor'' (enterProvider Vapi initial_app_state)) = Call
   \<and> agent (handleDetection JSON_parse_model ''constructor'' (enterProvider Vapi initial_app_state))
       = Some (Inherited ''constructor'')
   \<and> message (handleDetection JSON_parse_model ''constructor'' (enterProvider Vapi initial_app_state)) = None
   \<and> scannerResetToken (handleDetection JSON_parse_model ''constructor'' (enterProvider Vapi initial_app_state))
       = scannerResetToken (enterProvider Vapi initial_app_state)
   \<and> VAPI_LOOKUP ''constructor'' = None"
proof -
  have a: "provider (enterProvider Vapi initial_app_state) = Some Vapi"
    by (simp add: enterProvider_def)
  from handleDetection_inherited_name[OF a, of JSON_parse_model] a show ?thesis by simp
qed

section \<open>Properties of the Voice Session Controllers\<close>

lemmas call_handler_defs =
  startCall_def startCall_catch_def startCall_after_microphone_def startCall_after_start_def
  endCall_def handleHoldStart_def handleHoldEnd_def handleCallStart_def handleCallEnd_def
  handleCallStartFailed_def handleError_def applyMuteState_def

lemmas el_handler_defs =
  startSession_def startSession_catch_def startSession_after_microphone_def
  startSession_after_start_def endSession_def handleHoldStart_el_def handleHoldEnd_el_def
  onStatusChange_def onDisconnect_def onError_def

lemma call_step_invariant:
  assumes "statusRef s = status s" and "isHolding s \<longrightarrow> status s = Live"
  shows "statusRef (call_step a e s) = status (call_step a e s)
         \<and> (isHolding (call_step a e s) \<longrightarrow> status (call_step a e s) = Live)"
  using assms
  by (cases e)
    (auto simp: call_step_def commit_def status_effect_def call_handler_defs Let_def
      split: option.splits if_splits)

lemma run_call_screen_snoc:
  "run_call_screen a (es @ [e]) = call_step a e (run_call_screen a es)"
  by (simp add: run_call_screen_def)

lemma run_call_screen_invariant:
  "statusRef (run_call_screen a es) = status (run_call_screen a es)
   \<and> (isHolding (run_call_screen a es) \<longrightarrow> status (run_call_screen a es) = Live)"
proof (induction es rule: rev_induct)
  case Nil
  show ?case by (simp add: run_call_screen_def initial_call_screen_def)
next
  case (snoc e es)
  then show ?case
    using call_step_invariant[of "run_call_screen a es" a e]
    by (simp add: run_call_screen_snoc)
qed

lemma el_step_statusRef:
  assumes "statusRef_el s = status_el s"
  shows "statusRef_el (el_step key a e s) = status_el (el_step key a e s)"
  using assms
  by (cases e)
    (auto simp: el_step_def commit_el_def status_effect_el_def el_handler_defs Let_def
      split: option.splits if_splits)

lemma run_el_screen_snoc:
  "run_el_screen key a (es @ [e]) = el_step key a e (run_el_screen key a es)"
  by (simp add: run_el_screen_def)

lemma run_el_screen_statusRef:
  "statusRef_el (run_el_screen key a es) = status_el (run_el_screen key a es)"
proof (induction es rule: rev_induct)
  case Nil
  show ?case by (simp add: run_el_screen_def initial_el_screen_def)
next
  case (snoc e es)
  then show ?case
    using el_step_statusRef[of "run_el_screen key a es" key a e]
    by (simp add: run_el_screen_snoc)
qed

lemma run_connecting:
  "status (run_call_screen ''a'' [StartCall]) = Connecting"
  by code_simp

lemma run_el_live:
  "status_el (run_el_screen (Some ''k'') ''a'' [StartSession, EL_MicrophoneSettled GetUserMedia_resolves, StatusChange Conv_connected]) = Live"
  by code_simp

lemma holding_state:
  "run_call_screen ''a''
     [StartCall, MicrophoneSettled GetUserMedia_resolves False, CallStartEvent False, HoldStart False]
   = \<lparr>status = Live, error = None, statusRef = Live, isHolding = True, isMuted = False,
      vapi_calls = [Vapi_start ''a'', Vapi_setMuted True, Vapi_setMuted False]\<rparr>"
  by code_simp

lemma holding_state_el:
  "run_el_screen (Some ''k'') ''a''
     [StartSession, EL_MicrophoneSettled GetUserMedia_resolves, StatusChange Conv_connected, EL_HoldStart]
   = \<lparr>status_el = Live, error_el = None, isHolding_el = True, isMicMuted = False,
      statusRef_el = Live, conversation_calls = [Conversation_startSession ''a'']\<rparr>"
  by code_simp

text \<open>
  C2. In every state a run of the screen reaches, if the status is \<open>connecting\<close> or
  \<open>live\<close> then \<open>startCall\<close> (\<open>startSession\<close>) returns at its guard: the state, with the
  status, the error, both flags and the calls made on the backend, is unchanged, and the body
  that requests the microphone and starts the backend session is not entered.
\<close>

theorem start_is_noop_while_connecting_or_live:
  "(status (run_call_screen a es) = Connecting \<or> status (run_call_screen a es) = Live \<longrightarrow>
      startCall (run_call_screen a es) = (run_call_screen a es, False))
   \<and> (statusRef s = Connecting \<or> statusRef s = Live \<longrightarrow> startCall s = (s, False))
   \<and> (status_el (run_el_screen key b fs) = Connecting \<or> status_el (run_el_screen key b fs) = Live \<longrightarrow>
      startSession key (run_el_screen key b fs) = (run_el_screen key b fs, False))
   \<and> (statusRef_el t = Connecting \<or> statusRef_el t = Live \<longrightarrow> startSession key t = (t, False))"
  using run_call_screen_invariant[of a es] run_el_screen_statusRef[of key b fs]
  by (auto simp: startCall_def startSession_def)

theorem start_is_noop_while_connecting_or_live_witness:
  "status (run_call_screen ''a'' [StartCall]) = Connecting
   \<and> startCall (run_call_screen ''a'' [StartCall]) = (run_call_screen ''a'' [StartCall], False)
   \<and> status_el (run_el_screen (Some ''k'') ''a''
        [StartSession, EL_MicrophoneSettled GetUserMedia_resolves, StatusChange Conv_connected]) = Live
   \<and> startSession (Some ''k'') (run_el_screen (Some ''k'') ''a''
        [StartSession, EL_MicrophoneSettled GetUserMedia_resolves, StatusChange Conv_connected])
      = (run_el_screen (Some ''k'') ''a''
        [StartSession, EL_MicrophoneSettled GetUserMedia_resolves, StatusChange Conv_connected], False)
   \<and> startCall (initial_call_screen\<lparr>statusRef := Live\<rparr>)
      = (initial_call_screen\<lparr>statusRef := Live\<rparr>, False)
   \<and> startSession (Some ''k'') (initial_el_screen\<lparr>statusRef_el := Connecting\<rparr>)
      = (initial_el_screen\<lparr>statusRef_el := Connecting\<rparr>, False)"
  using start_is_noop_while_connecting_or_live[of "''a''" "[StartCall]"
      "initial_call_screen\<lparr>statusRef := Live\<rparr>" "Some ''k''" "''a''"
      "[StartSession, EL_MicrophoneSettled GetUserMedia_resolves, StatusChange Conv_connected]"
      "initial_el_screen\<lparr>statusRef_el := Connecting\<rparr>"]
    run_connecting run_el_live
  by simp

text \<open>
  C1. After \<open>endCall\<close>, a call-end event, a call-start-failed event or an error event, the
  status is \<open>ended\<close> or \<open>error\<close> and the hold flag is off, whatever the state before. In
  \<open>CallScreen\<close> the mute flag is on afterwards when \<open>vapi.setMuted(true)\<close> returns, and is
  left as it was when that call throws. In \<open>ElevenLabsCallScreen\<close> the mute flag is on
  afterwards in every case.
\<close>

theorem terminal_transition_hold_off:
  "(\<forall>e \<in> set [EndCall stop_throws mt, CallEndEvent mt, CallStartFailedEvent mt, ErrorEvent mt].
      (status (call_step a e s) = Ended \<or> status (call_step a e s) = Error)
      \<and> \<not> isHolding (call_step a e s)
      \<and> isMuted (call_step a e s) = (if mt then isMuted s else True))
   \<and> (\<forall>e \<in> set [EndSession rejected, StatusChange Conv_disconnecting,
                  StatusChange Conv_disconnected, Disconnect, ConversationError msg].
      (status_el (el_step key b e t) = Ended \<or> status_el (el_step key b e t) = Error)
      \<and> \<not> isHolding_el (el_step key b e t)
      \<and> isMicMuted (el_step key b e t))"
  by (simp add: call_step_def commit_def status_effect_def call_handler_defs
      el_step_def commit_el_def status_effect_el_def el_handler_defs Let_def)

theorem terminal_transition_hold_off_witness:
  "status (call_step ''a'' (CallEndEvent False)
      \<lparr>status = Live, error = None, statusRef = Live, isHolding = True, isMuted = False,
       vapi_calls = []\<rparr>) = Ended
   \<and> \<not> isHolding (call_step ''a'' (CallEndEvent False)
      \<lparr>status = Live, error = None, statusRef = Live, isHolding = True, isMuted = False,
       vapi_calls = []\<rparr>)
   \<and> isMuted (call_step ''a'' (CallEndEvent False)
      \<lparr>status = Live, error = None, statusRef = Live, isHolding = True, isMuted = False,
       vapi_calls = []\<rparr>)
   \<and> status_el (el_step (Some ''k'') ''a'' (ConversationError ''lost'')
      \<lparr>status_el = Live, error_el = None, isHolding_el = True, isMicMuted = False,
       statusRef_el = Live, conversation_calls = []\<rparr>) = Error
   \<and> \<not> isHolding_el (el_step (Some ''k'') ''a'' (ConversationError ''lost'')
      \<lparr>status_el = Live, error_el = None, isHolding_el = True, isMicMuted = False,
       statusRef_el = Live, conversation_calls = []\<rparr>)
   \<and> isMicMuted (el_step (Some ''k'') ''a'' (ConversationError ''lost'')
      \<lparr>status_el = Live, error_el = None, isHolding_el = True, isMicMuted = False,
       statusRef_el = Live, conversation_calls = []\<rparr>)"
proof -
  have a: "status (call_step ''a'' (CallEndEvent False)
      \<lparr>status = Live, error = None, statusRef = Live, isHolding = True, isMuted = False,
       vapi_calls = []\<rparr>) = Ended"
    by code_simp
  have b: "status_el (el_step (Some ''k'') ''a'' (ConversationError ''lost'')
      \<lparr>status_el = Live, error_el = None, isHolding_el = True, isMicMuted = False,
       statusRef_el = Live, conversation_calls = []\<rparr>) = Error"
    by code_simp
  from terminal_transition_hold_off[of None False "''a''"
      "\<lparr>status = Live, error = None, statusRef = Live, isHolding = True, isMuted = False,
       vapi_calls = []\<rparr>" None "''lost''" "Some ''k''" "''a''"
      "\<lparr>status_el = Live, error_el = None, isHolding_el = True, isMicMuted = False,
       statusRef_el = Live, conversation_calls = []\<rparr>"] a b
  show ?thesis by simp
qed

text \<open>
  The mute flag is not on after every such transition: the user holds the button, the call
  ends, and \<open>vapi.setMuted(true)\<close> throws.
\<close>

theorem call_end_mute_refused_counterexample:
  "status (run_call_screen ''a''
     [StartCall, MicrophoneSettled GetUserMedia_resolves False, CallStartEvent False,
      HoldStart False, CallEndEvent True]) = Ended
   \<and> \<not> isMuted (run_call_screen ''a''
     [StartCall, MicrophoneSettled GetUserMedia_resolves False, CallStartEvent False,
      HoldStart False, CallEndEvent True])"
  by code_simp

text \<open>
  C3. Whatever the state and whatever the backend teardown does, \<open>endCall\<close> and
  \<open>endSession\<close> leave the status \<open>ended\<close> and the hold flag off and do not touch the error
  message. The mute flag is on afterwards in \<open>ElevenLabsCallScreen\<close>, and in \<open>CallScreen\<close>
  when \<open>vapi.setMuted(true)\<close> returns. A rejection of \<open>conversation.endSession()\<close> does not
  leave \<open>endSession\<close>.
\<close>

theorem end_sets_local_state:
  "status (fst (endCall stop_throws mt s)) = Ended
   \<and> \<not> isHolding (fst (endCall stop_throws mt s))
   \<and> isMuted (fst (endCall stop_throws mt s)) = (if mt then isMuted s else True)
   \<and> error (fst (endCall stop_throws mt s)) = error s
   \<and> status (call_step a (EndCall stop_throws mt) s) = Ended
   \<and> error (call_step a (EndCall stop_throws mt) s) = error s
   \<and> endSession rejected t
       = (t\<lparr>conversation_calls := conversation_calls t @ [Conversation_endSession],
            status_el := Ended, isHolding_el := False, isMicMuted := True\<rparr>, None)
   \<and> status_el (el_step key b (EndSession rejected) t) = Ended
   \<and> error_el (el_step key b (EndSession rejected) t) = error_el t"
  by (simp add: call_step_def commit_def status_effect_def call_handler_defs
      el_step_def commit_el_def status_effect_el_def el_handler_defs Let_def)

theorem end_sets_local_state_witness:
  "status (fst (endCall (Some (ErrorInstance ''stop failed'')) False initial_call_screen)) = Ended
   \<and> isMuted (fst (endCall (Some (ErrorInstance ''stop failed'')) False initial_call_screen))
   \<and> error (fst (endCall (Some (ErrorInstance ''stop failed'')) False initial_call_screen)) = None
   \<and> snd (endSession (Some (ErrorInstance ''end failed'')) initial_el_screen) = None
   \<and> status_el (fst (endSession (Some (ErrorInstance ''end failed'')) initial_el_screen)) = Ended"
  using end_sets_local_state[of "Some (ErrorInstance ''stop failed'')" False initial_call_screen
      "''a''" "Some (ErrorInstance ''end failed'')" initial_el_screen "Some ''k''" "''a''"]
  by (simp add: initial_call_screen_def initial_el_screen_def)

text \<open>
  What \<open>vapi.stop()\<close> throws does leave \<open>endCall\<close>, after the \<open>finally\<close> block; and the
  mute flag stays off when \<open>vapi.setMuted(true)\<close> throws as well.
\<close>

theorem endCall_rethrows_counterexample:
  "snd (endCall (Some (ErrorInstance ''stop failed'')) True
     (run_call_screen ''a''
        [StartCall, MicrophoneSettled GetUserMedia_resolves False, CallStartEvent False,
         HoldStart False]))
     = Some (ErrorInstance ''stop failed'')
   \<and> \<not> isMuted (fst (endCall (Some (ErrorInstance ''stop failed'')) True
     (run_call_screen ''a''
        [StartCall, MicrophoneSettled GetUserMedia_resolves False, CallStartEvent False,
         HoldStart False])))"
  by code_simp

text \<open>
  \<open>ElevenLabsCallScreen\<close> has no effect that clears the hold flag: there the flag is cleared
  by each handler that leaves \<open>live\<close>, and every step keeps the flag off outside \<open>live\<close>
  but the \<open>catch\<close> of \<open>startSession\<close>, which sets the status \<open>error\<close> and leaves the flag.
\<close>

lemma el_step_hold_invariant:
  assumes "statusRef_el s = status_el s" and "isHolding_el s \<longrightarrow> status_el s = Live"
    and "\<forall>err. e \<noteq> EL_StartSettled (Some err)"
    and "\<forall>host. e = EL_MicrophoneSettled host \<longrightarrow> ensureMicrophonePermission host = None"
  shows "isHolding_el (el_step key a e s) \<longrightarrow> status_el (el_step key a e s) = Live"
  using assms
  by (cases e)
    (auto simp: el_step_def commit_el_def status_effect_el_def el_handler_defs Let_def
      split: option.splits if_splits)



end
